theory Spec2Isabelle
  imports Main "HOL-Library.Sublist"
begin

section \<open>Python values and exceptions\<close>

text \<open>
  The relay is \<^verbatim>\<open>src/relay.py\<close>. Its core is the handler \<^verbatim>\<open>proxy\<close> and the
  asynchronous generator \<^verbatim>\<open>stream_with_keepalive\<close>. Every \<^verbatim>\<open>raise\<close> of the Python
  is a value \<open>Inl e\<close> of a sum type here, so that each \<^verbatim>\<open>try/except\<close> of the source
  is a case distinction of the model.
\<close>

text \<open>A \<^verbatim>\<open>bytes\<close> object is a list of 8-bit characters.\<close>

type_synonym bytes = "char list"

text \<open>
  The exceptions the handler can meet. \<open>RequestError\<close> is \<^verbatim>\<open>httpx.RequestError\<close>,
  \<open>OtherException\<close> any other subclass of \<^verbatim>\<open>Exception\<close>; each carries \<^verbatim>\<open>str(e)\<close>.
  \<open>CancelledError\<close> is \<^verbatim>\<open>asyncio.CancelledError\<close>, which derives from
  \<^verbatim>\<open>BaseException\<close> only, so \<^verbatim>\<open>except Exception\<close> does not catch it.
\<close>

datatype exn =
    RequestError string
  | TypeError string
  | AttributeError string
  | KeyError string
  | JSONDecodeError string
  | OtherException string
  | CancelledError

fun str_exn :: "exn \<Rightarrow> string" where
  "str_exn (RequestError m) = m"
| "str_exn (TypeError m) = m"
| "str_exn (AttributeError m) = m"
| "str_exn (KeyError m) = m"
| "str_exn (JSONDecodeError m) = m"
| "str_exn (OtherException m) = m"
| "str_exn CancelledError = []"

fun is_RequestError :: "exn \<Rightarrow> bool" where
  "is_RequestError (RequestError m) = True"
| "is_RequestError e = False"

fun is_Exception :: "exn \<Rightarrow> bool" where
  "is_Exception CancelledError = False"
| "is_Exception e = True"

text \<open>
  What \<^verbatim>\<open>json.loads\<close> and \<^verbatim>\<open>response.json()\<close> return. A \<^verbatim>\<open>dict\<close> is given by
  its items and read with \<open>map_of\<close>. A float is a mantissa and a binary exponent; only
  whether it is zero matters below. The tokens \<^verbatim>\<open>NaN\<close> and \<^verbatim>\<open>Infinity\<close>, which
  Python's decoder accepts and which are not JSON, have no value here.
\<close>

datatype json =
    JNull
  | JBool bool
  | JInt int
  | JFloat int int
  | JStr string
  | JArr "json list"
  | JObj "(string \<times> json) list"

text \<open>\<^verbatim>\<open>k in v\<close> for a string \<open>k\<close>: key membership on a dict, element membership on a
  list, substring test on a string, \<^verbatim>\<open>TypeError\<close> on everything else.\<close>

fun py_contains :: "string \<Rightarrow> json \<Rightarrow> exn + bool" where
  "py_contains k (JObj kvs) = Inr (map_of kvs k \<noteq> None)"
| "py_contains k (JArr xs) = Inr (List.member xs (JStr k))"
| "py_contains k (JStr s) = Inr (sublist k s)"
| "py_contains k v = Inl (TypeError ''argument is not iterable'')"

text \<open>\<^verbatim>\<open>v[k]\<close> for a string \<open>k\<close>.\<close>

fun py_getitem :: "json \<Rightarrow> string \<Rightarrow> exn + json" where
  "py_getitem (JObj kvs) k = (case map_of kvs k of None \<Rightarrow> Inl (KeyError k) | Some v \<Rightarrow> Inr v)"
| "py_getitem (JArr xs) k = Inl (TypeError ''list indices must be integers or slices, not str'')"
| "py_getitem (JStr s) k = Inl (TypeError ''string indices must be integers'')"
| "py_getitem v k = Inl (TypeError ''object is not subscriptable'')"

text \<open>\<^verbatim>\<open>v.get(k)\<close>: only a dict has the method; a missing key gives \<^verbatim>\<open>None\<close>.\<close>

fun py_get :: "json \<Rightarrow> string \<Rightarrow> exn + json" where
  "py_get (JObj kvs) k = (case map_of kvs k of None \<Rightarrow> Inr JNull | Some v \<Rightarrow> Inr v)"
| "py_get v k = Inl (AttributeError ''object has no attribute get'')"

text \<open>Truth value of a decoded value, as \<^verbatim>\<open>content if content else {}\<close> tests it.\<close>

fun truthy :: "json \<Rightarrow> bool" where
  "truthy JNull = False"
| "truthy (JBool b) = b"
| "truthy (JInt i) = (i \<noteq> 0)"
| "truthy (JFloat m e) = (m \<noteq> 0)"
| "truthy (JStr s) = (s \<noteq> [])"
| "truthy (JArr xs) = (xs \<noteq> [])"
| "truthy (JObj kvs) = (kvs \<noteq> [])"

section \<open>Streaming classifier\<close>

text \<open>
  Lines 366 to 373 of \<^verbatim>\<open>proxy\<close>. \<open>detect\<close> is the condition of the \<^verbatim>\<open>if\<close> inside the
  \<^verbatim>\<open>try\<close>, with the short circuit of \<^verbatim>\<open>and\<close>; \<open>is_streaming\<close> adds the parse and
  the bare \<^verbatim>\<open>except: pass\<close>, which leaves the flag at \<^verbatim>\<open>False\<close>. The parser
  \<^verbatim>\<open>json.loads\<close> is a parameter.
\<close>

definition detect :: "json \<Rightarrow> exn + bool" where
  "detect body_json =
     (case py_contains ''function_call'' body_json of
        Inl e \<Rightarrow> Inl e
      | Inr False \<Rightarrow> Inr False
      | Inr True \<Rightarrow>
          (case py_getitem body_json ''function_call'' of
             Inl e \<Rightarrow> Inl e
           | Inr fc \<Rightarrow>
               (case py_get fc ''name'' of
                  Inl e \<Rightarrow> Inl e
                | Inr n \<Rightarrow> Inr (n = JStr ''search_code''))))"

definition is_streaming :: "(bytes \<Rightarrow> exn + json) \<Rightarrow> bytes \<Rightarrow> bool" where
  "is_streaming loads body =
     (case loads body of
        Inl e \<Rightarrow> False
      | Inr body_json \<Rightarrow> (case detect body_json of Inl e \<Rightarrow> False | Inr b \<Rightarrow> b))"

section \<open>Header sanitizer\<close>

text \<open>
  A \<^verbatim>\<open>dict\<close> with string keys is a map. \<^verbatim>\<open>dict(items)\<close> keeps the last value of a
  repeated key. Keys are compared as they are spelt: a Python \<^verbatim>\<open>dict\<close> is case
  sensitive.
\<close>

type_synonym headers = "string \<rightharpoonup> string"

definition py_dict :: "(string \<times> string) list \<Rightarrow> headers" where
  "py_dict its = map_of (rev its)"

text \<open>\<^verbatim>\<open>d.pop(k, None)\<close>, for the dict it leaves behind.\<close>

definition pop :: "string \<Rightarrow> headers \<Rightarrow> headers" where
  "pop k d = d(k := None)"

text \<open>Lines 351 to 359 of \<^verbatim>\<open>proxy\<close>.\<close>

definition sanitize_headers :: "(string \<times> string) list \<Rightarrow> headers" where
  "sanitize_headers its =
     (let headers = py_dict its;
          headers = pop ''authorization'' headers;
          headers = pop ''Authorization'' headers
      in if headers ''content-type'' = None
         then headers(''content-type'' \<mapsto> ''application/json'')
         else headers)"




section \<open>Requests, responses and the environment\<close>

text \<open>
  The inbound request as the handler sees it. \<open>body_read\<close> is the outcome of
  \<^verbatim>\<open>await request.body()\<close>. \<open>query_string\<close> and \<open>client\<close> stand for the parts of
  the framework's request object that the handler never reads.
\<close>

record inbound_request =
  endpoint :: string
  header_items :: "(string \<times> string) list"
  body_read :: "exn + bytes"
  query_string :: string
  client :: string

text \<open>The arguments of \<^verbatim>\<open>client.post\<close>.\<close>

record outbound_request =
  url :: string
  content :: bytes
  out_headers :: headers
  auth :: "string \<times> string"
  timeout :: nat
  stream :: bool

text \<open>
  One \<^verbatim>\<open>__anext__\<close> on the upstream byte iterator: a chunk and the iterator's next
  state, exhaustion, or an exception.
\<close>

datatype 's pulled = Chunk bytes 's | StopAsyncIteration | Raised exn

text \<open>
  What the handler reads of the upstream response: \<^verbatim>\<open>status_code\<close>,
  \<^verbatim>\<open>dict(response.headers.items())\<close>, \<^verbatim>\<open>response.headers.get("content-type")\<close>,
  the outcome of \<^verbatim>\<open>response.json()\<close>, \<^verbatim>\<open>response.text\<close>, and the iterator
  \<^verbatim>\<open>response.aiter_bytes()\<close> in its initial state.
\<close>

record 's upstream_response =
  status_code :: int
  resp_headers :: headers
  resp_content_type :: "string option"
  json_result :: "exn + json"
  text_of :: string
  aiter_bytes :: 's

text \<open>
  Everything outside the handler: the module constant \<^verbatim>\<open>UPSTREAM_URL\<close>, the process
  environment \<^verbatim>\<open>os.environ\<close>, the parser \<^verbatim>\<open>json.loads\<close>, the upstream service
  behind \<^verbatim>\<open>client.post\<close> and the upstream iterator's \<^verbatim>\<open>__anext__\<close>.
\<close>

record 's environment =
  UPSTREAM_URL :: string
  environ :: "string \<rightharpoonup> string"
  loads :: "bytes \<Rightarrow> exn + json"
  post :: "outbound_request \<Rightarrow> exn + 's upstream_response"
  anext :: "'s \<Rightarrow> 's pulled"

text \<open>\<^verbatim>\<open>os.environ.get(k, default)\<close>.\<close>

definition environ_get :: "(string \<rightharpoonup> string) \<Rightarrow> string \<Rightarrow> string \<Rightarrow> string" where
  "environ_get e k d = (case e k of None \<Rightarrow> d | Some v \<Rightarrow> v)"

section \<open>Keepalive relay\<close>

text \<open>
  \<^verbatim>\<open>stream_with_keepalive\<close> is an asynchronous generator. Calling it runs nothing: it
  gives a generator suspended before its first statement. Its control state is one of:
  in the \<^verbatim>\<open>async for\<close> loop over the upstream iterator (\<open>FORWARDING\<close>), in the
  \<^verbatim>\<open>while True\<close> loop suspended at \<^verbatim>\<open>yield b"\n"\<close> (\<open>KEEPALIVE\<close>), or finished by
  an exception (\<open>FINISHED\<close>). The first two carry \<^verbatim>\<open>keep_alive_interval\<close>.
\<close>

datatype 's generator = FORWARDING nat 's | KEEPALIVE nat | FINISHED

datatype event =
    ClientOpened
  | PostSent outbound_request
  | ClientClosed
  | Yielded bytes
  | Slept nat
  | Propagated exn
  | Stopped

definition KEEP_ALIVE_INTERVAL :: nat where
  "KEEP_ALIVE_INTERVAL = 10"

definition stream_with_keepalive :: "'s \<Rightarrow> nat \<Rightarrow> 's generator" where
  "stream_with_keepalive response_stream keep_alive_interval =
     FORWARDING keep_alive_interval response_stream"

text \<open>
  One \<^verbatim>\<open>__anext__\<close> on the generator: it runs to its next \<^verbatim>\<open>yield\<close>. Resumed in the
  keepalive loop it first finishes \<^verbatim>\<open>await asyncio.sleep(keep_alive_interval)\<close>. An
  exception of the upstream iterator is not caught (only \<^verbatim>\<open>CancelledError\<close> is, and
  it is raised again), so it ends the generator.
\<close>

fun gen_anext :: "('s \<Rightarrow> 's pulled) \<Rightarrow> 's generator \<Rightarrow> event list \<times> 's generator" where
  "gen_anext nxt (FORWARDING iv s) =
     (case nxt s of
        Chunk chunk s' \<Rightarrow> ([Yielded chunk], FORWARDING iv s')
      | StopAsyncIteration \<Rightarrow> ([Yielded [CHR 0x0A]], KEEPALIVE iv)
      | Raised e \<Rightarrow> ([Propagated e], FINISHED))"
| "gen_anext nxt (KEEPALIVE iv) = ([Slept iv, Yielded [CHR 0x0A]], KEEPALIVE iv)"
| "gen_anext nxt FINISHED = ([Stopped], FINISHED)"

text \<open>The consumer cancelling the generator while it is suspended: logged, raised again.\<close>

fun gen_cancel :: "'s generator \<Rightarrow> event list \<times> 's generator" where
  "gen_cancel FINISHED = ([Stopped], FINISHED)"
| "gen_cancel g = ([Propagated CancelledError], FINISHED)"

text \<open>The transport pulling \<open>n\<close> times; it stops at the first exception.\<close>

fun drain :: "('s \<Rightarrow> 's pulled) \<Rightarrow> nat \<Rightarrow> 's generator \<Rightarrow> event list \<times> 's generator" where
  "drain nxt 0 g = ([], g)"
| "drain nxt (Suc n) g =
     (case gen_anext nxt g of
        (evs, FINISHED) \<Rightarrow> (evs, FINISHED)
      | (evs, g') \<Rightarrow> (case drain nxt n g' of (evs', g'') \<Rightarrow> (evs @ evs', g'')))"

text \<open>The chunks a trace delivers, and the upstream calls it makes.\<close>

fun yields :: "event list \<Rightarrow> bytes list" where
  "yields [] = []"
| "yields (Yielded c # evs) = c # yields evs"
| "yields (ev # evs) = yields evs"

fun posted :: "event list \<Rightarrow> outbound_request list" where
  "posted [] = []"
| "posted (PostSent r # evs) = r # posted evs"
| "posted (ev # evs) = posted evs"

text \<open>An upstream iterator over a finite list of chunks.\<close>

fun list_anext :: "bytes list \<Rightarrow> bytes list pulled" where
  "list_anext [] = StopAsyncIteration"
| "list_anext (c # cs) = Chunk c cs"

text \<open>The trace of \<open>k\<close> rounds of the keepalive loop after its first filler byte.\<close>

fun keepalive_rounds :: "nat \<Rightarrow> nat \<Rightarrow> event list" where
  "keepalive_rounds iv 0 = []"
| "keepalive_rounds iv (Suc k) = [Slept iv, Yielded [CHR 0x0A]] @ keepalive_rounds iv k"

section \<open>The proxy handler\<close>

text \<open>
  A response is what the handler hands to \<^verbatim>\<open>JSONResponse\<close> or
  \<^verbatim>\<open>StreamingResponse\<close>: the status code, the header dict, and the content, a
  decoded value or the generator. How the framework writes them to the wire is not part
  of the handler.
\<close>

datatype 's body = JSONBody json | StreamingBody "'s generator"

record 's response =
  status :: int
  hdrs :: headers
  body :: "'s body"
  media_type :: string

text \<open>Lines 350 to 376: what the handler decides before it calls upstream.\<close>

record routing =
  r_headers :: headers
  r_upstream_url :: string
  r_is_streaming :: bool
  r_auth :: "string \<times> string"

definition route :: "'s environment \<Rightarrow> inbound_request \<Rightarrow> bytes \<Rightarrow> routing" where
  "route env request b =
     \<lparr> r_headers = sanitize_headers (header_items request),
       r_upstream_url = UPSTREAM_URL env @ ''/'' @ endpoint request,
       r_is_streaming = is_streaming (loads env) b,
       r_auth = (''serena'', environ_get (environ env) ''SERENA_PASSWORD'' ''password123'') \<rparr>"

text \<open>The two assignments that follow \<^verbatim>\<open>dict(response.headers.items())\<close>.\<close>

definition force_cors :: "headers \<Rightarrow> headers" where
  "force_cors response_headers =
     response_headers(''Access-Control-Allow-Origin'' \<mapsto> ''*'',
                      ''Access-Control-Allow-Credentials'' \<mapsto> ''false'')"

text \<open>The \<^verbatim>\<open>JSONResponse\<close> of both \<^verbatim>\<open>except\<close> clauses, for its message.\<close>

definition error_response :: "string \<Rightarrow> 's response" where
  "error_response msg =
     \<lparr> status = 500,
       hdrs = [''Access-Control-Allow-Origin'' \<mapsto> ''*'',
               ''Access-Control-Allow-Credentials'' \<mapsto> ''false''],
       body = JSONBody (JObj [(''error'', JStr msg)]),
       media_type = ''application/json'' \<rparr>"

text \<open>Lines 413 to 418 and the \<^verbatim>\<open>content if content else {}\<close> of line 426.\<close>

definition buffered_content :: "'s upstream_response \<Rightarrow> json" where
  "buffered_content response =
     (let content = (case json_result response of
                       Inr v \<Rightarrow> v
                     | Inl e \<Rightarrow> JObj [(''raw_response'', JStr (text_of response))])
      in if truthy content then content else JObj [])"

text \<open>
  The body of the outer \<^verbatim>\<open>try\<close>: the events it causes, and the response it returns or
  the exception it raises. \<^verbatim>\<open>async with httpx.AsyncClient(...) as client\<close> opens the
  client on entry and closes it when control leaves the block, by \<^verbatim>\<open>return\<close> or by
  an exception; both \<^verbatim>\<open>return\<close> statements are inside the block. The streaming
  response holds the generator, which has not run yet.
\<close>

definition proxy_try :: "'s environment \<Rightarrow> inbound_request \<Rightarrow> event list \<times> (exn + 's response)" where
  "proxy_try env request =
     (case body_read request of
        Inl e \<Rightarrow> ([], Inl e)
      | Inr b \<Rightarrow>
          (let r = route env request b in
           if r_is_streaming r then
             (let req = \<lparr> url = r_upstream_url r, content = b, out_headers = r_headers r,
                          auth = r_auth r, timeout = 300, stream = True \<rparr>
              in case post env req of
                   Inl e \<Rightarrow> ([ClientOpened, PostSent req, ClientClosed], Inl e)
                 | Inr response \<Rightarrow>
                     ([ClientOpened, PostSent req, ClientClosed],
                      Inr \<lparr> status = status_code response,
                            hdrs = force_cors (resp_headers response),
                            body = StreamingBody
                              (stream_with_keepalive (aiter_bytes response) KEEP_ALIVE_INTERVAL),
                            media_type = (case resp_content_type response of
                                            None \<Rightarrow> ''application/json''
                                          | Some t \<Rightarrow> t) \<rparr>))
           else
             (let req = \<lparr> url = r_upstream_url r, content = b, out_headers = r_headers r,
                          auth = r_auth r, timeout = 60, stream = False \<rparr>
              in case post env req of
                   Inl e \<Rightarrow> ([ClientOpened, PostSent req, ClientClosed], Inl e)
                 | Inr response \<Rightarrow>
                     ([ClientOpened, PostSent req, ClientClosed],
                      Inr \<lparr> status = status_code response,
                            hdrs = force_cors (resp_headers response),
                            body = JSONBody (buffered_content response),
                            media_type = ''application/json'' \<rparr>))))"

text \<open>
  The handler with its two \<^verbatim>\<open>except\<close> clauses, in their order. An exception that is
  not an \<^verbatim>\<open>Exception\<close> passes both.
\<close>

definition proxy :: "'s environment \<Rightarrow> inbound_request \<Rightarrow> event list \<times> (exn + 's response)" where
  "proxy env request =
     (case proxy_try env request of
        (evs, Inr resp) \<Rightarrow> (evs, Inr resp)
      | (evs, Inl e) \<Rightarrow>
          if is_RequestError e
          then (evs, Inr (error_response (''Error forwarding request: '' @ str_exn e)))
          else if is_Exception e
          then (evs, Inr (error_response (''Unexpected error: '' @ str_exn e)))
          else (evs, Inl e))"


section \<open>An example environment\<close>

text \<open>
  Concrete inputs for the examples below: a parser that knows three request texts, an
  upstream that gives the same answer to every call, a request and an upstream response.
\<close>


definition example_loads :: "bytes \<Rightarrow> exn + json" where
  \<open>example_loads b =
     (if b = ''{}'' then Inr (JObj [])
      else if b = ''{"function_call": {"name": "search_code"}}''
      then Inr (JObj [(''function_call'', JObj [(''name'', JStr ''search_code'')])])
      else if b = ''{"function_call": {"name": "find_symbol"}}''
      then Inr (JObj [(''function_call'', JObj [(''name'', JStr ''find_symbol'')])])
      else Inl (JSONDecodeError ''Expecting value''))\<close>

definition example_env :: "(exn + bytes list upstream_response) \<Rightarrow> bytes list environment" where
  "example_env answer =
     \<lparr> UPSTREAM_URL = ''https://serena-mcp.fly.dev'',
       environ = [''SERENA_PASSWORD'' \<mapsto> ''s3cret''],
       loads = example_loads,
       post = (\<lambda>req. answer),
       anext = list_anext \<rparr>"

definition example_request :: "bytes \<Rightarrow> string \<Rightarrow> inbound_request" where
  "example_request b q =
     \<lparr> endpoint = ''find_symbol'',
       header_items = [(''authorization'', ''Bearer t''), (''accept'', ''text/plain'')],
       body_read = Inr b,
       query_string = q,
       client = ''10.0.0.7'' \<rparr>"

definition example_upstream :: "(string \<times> string) list \<Rightarrow> exn + json \<Rightarrow> bytes list upstream_response" where
  "example_upstream hs j =
     \<lparr> status_code = 200,
       resp_headers = py_dict hs,
       resp_content_type = None,
       json_result = j,
       text_of = ''plain text'',
       aiter_bytes = [''ab'', ''c''] \<rparr>"

section \<open>Theorems\<close>

lemma detect_obj:
  "detect (JObj kvs) =
     (case map_of kvs ''function_call'' of
        None \<Rightarrow> Inr False
      | Some fc \<Rightarrow> (case py_get fc ''name'' of Inl e \<Rightarrow> Inl e | Inr n \<Rightarrow> Inr (n = JStr ''search_code'')))"
  by (simp add: detect_def split: option.splits)

lemma detect_not_obj:
  "(\<And>kvs. j \<noteq> JObj kvs) \<Longrightarrow> detect j \<noteq> Inr True"
  by (cases j) (auto simp: detect_def split: sum.splits bool.splits)

lemma detect_True_iff:
  "detect j = Inr True \<longleftrightarrow>
     (\<exists>kvs fc. j = JObj kvs \<and> map_of kvs ''function_call'' = Some (JObj fc)
        \<and> map_of fc ''name'' = Some (JStr ''search_code''))"
proof (cases j)
  case (JObj kvs)
  show ?thesis
  proof (cases "map_of kvs ''function_call''")
    case None
    with JObj show ?thesis by (simp add: detect_obj)
  next
    case (Some fc)
    with JObj show ?thesis
      by (cases fc) (auto simp: detect_obj split: option.splits)
  qed
qed (auto simp: detect_def split: sum.splits bool.splits)

text \<open>
  Shapes the condition raises on, which the bare \<^verbatim>\<open>except\<close> turns into "not
  streaming": a number, a list that has the key as an element, a string that contains
  it, and a \<open>function_call\<close> entry that is not a dict.
\<close>

lemma detect_raises_examples:
  "detect (JInt 3) = Inl (TypeError ''argument is not iterable'')"
  "detect (JArr [JStr ''function_call'']) =
     Inl (TypeError ''list indices must be integers or slices, not str'')"
  "detect (JStr ''a function_call'') = Inl (TypeError ''string indices must be integers'')"
  "detect (JObj [(''function_call'', JStr ''search_code'')]) =
     Inl (AttributeError ''object has no attribute get'')"
  "detect (JObj [(''function_call'', JObj [])]) = Inr False"
  by (simp_all add: detect_def sublist_code)

text \<open>
  C1. A body is classified as streaming exactly when it parses to a JSON object whose
  \<open>function_call\<close> entry is an object with \<open>name\<close> equal to \<open>search_code\<close>. Every
  other body, unparsable ones included, is classified as non-streaming; the
  classification is a total boolean function, so nothing is raised.
\<close>

theorem is_streaming_iff:
  "is_streaming parse b \<longleftrightarrow>
     (\<exists>kvs fc. parse b = Inr (JObj kvs)
        \<and> map_of kvs ''function_call'' = Some (JObj fc)
        \<and> map_of fc ''name'' = Some (JStr ''search_code''))"
proof (cases "parse b")
  case (Inl e)
  then show ?thesis by (simp add: is_streaming_def)
next
  case (Inr j)
  have "is_streaming parse b \<longleftrightarrow> detect j = Inr True"
    using Inr by (auto simp: is_streaming_def split: sum.splits)
  then show ?thesis using Inr by (simp add: detect_True_iff)
qed


lemma drain_keepalive:
  "drain nxt n (KEEPALIVE iv) = (keepalive_rounds iv n, KEEPALIVE iv)"
  by (induction n) simp_all

lemma drain_list:
  "drain list_anext n (FORWARDING iv cs) =
     (if n \<le> length cs then (map Yielded (take n cs), FORWARDING iv (drop n cs))
      else (map Yielded cs @ Yielded [CHR 0x0A] # keepalive_rounds iv (n - Suc (length cs)),
            KEEPALIVE iv))"
proof (induction n arbitrary: cs)
  case 0
  show ?case by simp
next
  case (Suc n)
  show ?case
  proof (cases cs)
    case Nil
    then show ?thesis by (simp add: drain_keepalive)
  next
    case (Cons c cs')
    then show ?thesis using Suc.IH [of cs'] by simp
  qed
qed

lemma yields_map_Yielded: "yields (map Yielded cs @ evs) = cs @ yields evs"
  by (induction cs) simp_all

lemma yields_keepalive_rounds: "yields (keepalive_rounds iv k) = replicate k [CHR 0x0A]"
  by (induction k) simp_all

text \<open>
  C4. Over an upstream that produces the chunks \<open>cs\<close> and is then exhausted, \<open>n\<close>
  pulls on the relay give: the first \<open>n\<close> chunks of \<open>cs\<close>, unchanged and in order;
  once \<open>cs\<close> is used up, one newline, and after it only rounds of a 10 second sleep
  followed by one newline. The generator is in its forwarding loop as long as
  \<open>n \<le> length cs\<close> and in its keepalive loop from then on, so it changes loop once
  and never ends. The delivered chunks are the first \<open>n\<close> of \<open>cs\<close> followed by
  newlines only: no filler before the exhaustion, no upstream chunk after it.
\<close>

theorem keepalive_relay_trace:
  "fst (drain list_anext n (stream_with_keepalive cs KEEP_ALIVE_INTERVAL)) =
     map Yielded (take n cs) @
     (if n \<le> length cs then []
      else Yielded [CHR 0x0A] # keepalive_rounds 10 (n - Suc (length cs)))
   \<and> snd (drain list_anext n (stream_with_keepalive cs KEEP_ALIVE_INTERVAL)) =
     (if n \<le> length cs then FORWARDING 10 (drop n cs) else KEEPALIVE 10)
   \<and> yields (fst (drain list_anext n (stream_with_keepalive cs KEEP_ALIVE_INTERVAL))) =
     take n (cs @ replicate n [CHR 0x0A])"
proof -
  have y: "yields (map Yielded xs) = xs" for xs
    using yields_map_Yielded [of xs "[]"] by simp
  have "n \<le> length cs \<Longrightarrow> yields (map Yielded (take n cs)) = take n (cs @ replicate n [CHR 0x0A])"
    by (simp add: y)
  moreover have "\<not> n \<le> length cs \<Longrightarrow>
      yields (map Yielded cs @ Yielded [CHR 0x0A] # keepalive_rounds 10 (n - Suc (length cs)))
        = take n (cs @ replicate n [CHR 0x0A])"
    by (simp add: yields_map_Yielded yields_keepalive_rounds flip: replicate_Suc)
  ultimately show ?thesis
    by (simp add: stream_with_keepalive_def KEEP_ALIVE_INTERVAL_def drain_list)
qed

theorem keepalive_relay_trace_witness:
  "fst (drain list_anext 5 (stream_with_keepalive [''ab'', ''c''] KEEP_ALIVE_INTERVAL)) =
     [Yielded ''ab'', Yielded ''c'', Yielded [CHR 0x0A], Slept 10, Yielded [CHR 0x0A],
      Slept 10, Yielded [CHR 0x0A]]"
  using keepalive_relay_trace [of 5 "[''ab'', ''c'']"] by (simp add: numeral_eq_Suc)





subsection \<open>The handler\<close>

text \<open>The upstream call of a request whose body was read, and what the handler makes of its outcome.\<close>


lemma proxy_try_body_raises:
  "body_read request = Inl e \<Longrightarrow> proxy_try env request = ([], Inl e)"
  by (simp add: proxy_try_def)

lemma proxy_try_posted:
  assumes "body_read request = Inr b"
  shows "\<exists>req. fst (proxy_try env request) = [ClientOpened, PostSent req, ClientClosed]
    \<and> url req = UPSTREAM_URL env @ ''/'' @ endpoint request
    \<and> content req = b
    \<and> out_headers req = sanitize_headers (header_items request)
    \<and> auth req = (''serena'', environ_get (environ env) ''SERENA_PASSWORD'' ''password123'')
    \<and> stream req = is_streaming (loads env) b
    \<and> timeout req = (if is_streaming (loads env) b then 300 else 60)
    \<and> snd (proxy_try env request) =
        (case post env req of
           Inl e \<Rightarrow> Inl e
         | Inr response \<Rightarrow>
             Inr \<lparr> status = status_code response,
                   hdrs = force_cors (resp_headers response),
                   body = (if stream req
                           then StreamingBody (stream_with_keepalive (aiter_bytes response) KEEP_ALIVE_INTERVAL)
                           else JSONBody (buffered_content response)),
                   media_type = (if stream req
                                 then (case resp_content_type response of None \<Rightarrow> ''application/json'' | Some t \<Rightarrow> t)
                                 else ''application/json'') \<rparr>)"
  using assms by (auto simp: proxy_try_def route_def Let_def split: sum.splits)

lemma proxy_fst: "fst (proxy env request) = fst (proxy_try env request)"
  by (auto simp: proxy_def split: prod.splits sum.splits)

lemma proxy_snd:
  "snd (proxy env request) =
     (case snd (proxy_try env request) of
        Inr resp \<Rightarrow> Inr resp
      | Inl e \<Rightarrow>
          if is_RequestError e
          then Inr (error_response (''Error forwarding request: '' @ str_exn e))
          else if is_Exception e
          then Inr (error_response (''Unexpected error: '' @ str_exn e))
          else Inl e)"
  by (auto simp: proxy_def split: prod.splits sum.splits)

lemma posted_proxy_try:
  "req \<in> set (posted (fst (proxy_try env request))) \<Longrightarrow>
     \<exists>b. body_read request = Inr b \<and> fst (proxy_try env request) = [ClientOpened, PostSent req, ClientClosed]"
proof (cases "body_read request")
  case (Inl e)
  assume "req \<in> set (posted (fst (proxy_try env request)))"
  with Inl show ?thesis by (simp add: proxy_try_body_raises)
next
  case (Inr b)
  assume r: "req \<in> set (posted (fst (proxy_try env request)))"
  from proxy_try_posted [OF Inr, of env] obtain req' where
    "fst (proxy_try env request) = [ClientOpened, PostSent req', ClientClosed]" by blast
  with r Inr show ?thesis by simp
qed

lemma proxy_try_of_posted:
  assumes "req \<in> set (posted (fst (proxy_try env request)))"
  shows "auth req = (''serena'', environ_get (environ env) ''SERENA_PASSWORD'' ''password123'')
    \<and> url req = UPSTREAM_URL env @ ''/'' @ endpoint request
    \<and> out_headers req = sanitize_headers (header_items request)
    \<and> body_read request = Inr (content req)
    \<and> stream req = is_streaming (loads env) (content req)
    \<and> snd (proxy_try env request) =
        (case post env req of
           Inl e \<Rightarrow> Inl e
         | Inr response \<Rightarrow>
             Inr \<lparr> status = status_code response,
                   hdrs = force_cors (resp_headers response),
                   body = (if stream req
                           then StreamingBody (stream_with_keepalive (aiter_bytes response) KEEP_ALIVE_INTERVAL)
                           else JSONBody (buffered_content response)),
                   media_type = (if stream req
                                 then (case resp_content_type response of None \<Rightarrow> ''application/json'' | Some t \<Rightarrow> t)
                                 else ''application/json'') \<rparr>)"
proof -
  from posted_proxy_try [OF assms] obtain b where b: "body_read request = Inr b"
    and f: "fst (proxy_try env request) = [ClientOpened, PostSent req, ClientClosed]" by blast
  from proxy_try_posted [OF b, of env] obtain req' where
    f': "fst (proxy_try env request) = [ClientOpened, PostSent req', ClientClosed]"
    and rest: "url req' = UPSTREAM_URL env @ ''/'' @ endpoint request"
      "content req' = b"
      "out_headers req' = sanitize_headers (header_items request)"
      "auth req' = (''serena'', environ_get (environ env) ''SERENA_PASSWORD'' ''password123'')"
      "stream req' = is_streaming (loads env) b"
      "snd (proxy_try env request) =
        (case post env req' of
           Inl e \<Rightarrow> Inl e
         | Inr response \<Rightarrow>
             Inr \<lparr> status = status_code response,
                   hdrs = force_cors (resp_headers response),
                   body = (if stream req'
                           then StreamingBody (stream_with_keepalive (aiter_bytes response) KEEP_ALIVE_INTERVAL)
                           else JSONBody (buffered_content response)),
                   media_type = (if stream req'
                                 then (case resp_content_type response of None \<Rightarrow> ''application/json'' | Some t \<Rightarrow> t)
                                 else ''application/json'') \<rparr>)"
    by blast
  from f f' have e: "req' = req" by simp
  show ?thesis using rest b unfolding e by simp
qed





lemma proxy_of_posted_ok:
  assumes r: "req \<in> set (posted (fst (proxy env request)))"
    and p: "post env req = Inr response"
  shows "snd (proxy env request) =
     Inr \<lparr> status = status_code response,
           hdrs = force_cors (resp_headers response),
           body = (if stream req
                   then StreamingBody (stream_with_keepalive (aiter_bytes response) KEEP_ALIVE_INTERVAL)
                   else JSONBody (buffered_content response)),
           media_type = (if stream req
                         then (case resp_content_type response of None \<Rightarrow> ''application/json'' | Some t \<Rightarrow> t)
                         else ''application/json'') \<rparr>"
proof -
  from r have "req \<in> set (posted (fst (proxy_try env request)))" by (simp add: proxy_fst)
  from proxy_try_of_posted [OF this] p show ?thesis by (simp add: proxy_snd)
qed

lemma example_posted:
  "posted (fst (proxy (example_env answer) (example_request b q))) =
     [\<lparr> url = ''https://serena-mcp.fly.dev/find_symbol'', content = b,
        out_headers = sanitize_headers [(''authorization'', ''Bearer t''), (''accept'', ''text/plain'')],
        auth = (''serena'', ''s3cret''),
        timeout = (if is_streaming example_loads b then 300 else 60),
        stream = is_streaming example_loads b \<rparr>]"
  by (simp add: proxy_fst proxy_try_def example_env_def example_request_def route_def Let_def
      environ_get_def split: sum.splits)


lemma example_not_streaming: "\<not> is_streaming example_loads ''{}''"
  by (simp add: is_streaming_def example_loads_def detect_def)




text \<open>
  C9. The falsy decoded values are \<open>{}\<close>, \<open>[]\<close>, \<open>0\<close> (integer or float),
  \<open>false\<close>, \<open>null\<close> and the empty string. When a non-streaming upstream call returns a
  body that is valid JSON decoding to one of them, the relayed body is \<open>{}\<close>.
\<close>

theorem proxy_falsy_body_empty_object:
  "(\<not> truthy v \<longleftrightarrow>
      v \<in> {JObj [], JArr [], JInt 0, JBool False, JNull, JStr []} \<or> (\<exists>x. v = JFloat 0 x))
   \<and> (req \<in> set (posted (fst (proxy env request))) \<and> \<not> stream req
        \<and> post env req = Inr response \<and> json_result response = Inr v \<and> \<not> truthy v
      \<longrightarrow> (\<exists>r. snd (proxy env request) = Inr r \<and> body r = JSONBody (JObj [])))"
proof -
  have "(\<not> truthy v) =
      (v \<in> {JObj [], JArr [], JInt 0, JBool False, JNull, JStr []} \<or> (\<exists>x. v = JFloat 0 x))"
    by (cases v) auto
  moreover have "\<exists>r. snd (proxy env request) = Inr r \<and> body r = JSONBody (JObj [])"
    if r: "req \<in> set (posted (fst (proxy env request)))" and s: "\<not> stream req"
      and p: "post env req = Inr response" and j: "json_result response = Inr v" and f: "\<not> truthy v"
  proof -
    from j f have "buffered_content response = JObj []"
      by (simp add: buffered_content_def)
    with proxy_of_posted_ok [OF r p] s show ?thesis by simp
  qed
  ultimately show ?thesis by blast
qed

theorem proxy_falsy_body_empty_object_witness:
  "\<not> truthy (JInt 0)
   \<and> \<not> is_streaming example_loads ''{}''
   \<and> (\<exists>r. snd (proxy (example_env (Inr (example_upstream [] (Inr (JInt 0))))) (example_request ''{}'' []))
            = Inr r \<and> body r = JSONBody (JObj []))"
proof -
  let ?up = "example_upstream [] (Inr (JInt 0))"
  let ?env = "example_env (Inr ?up)"
  let ?rq = "example_request ''{}'' []"
  let ?req = "\<lparr> url = ''https://serena-mcp.fly.dev/find_symbol'', content = ''{}'',
        out_headers = sanitize_headers [(''authorization'', ''Bearer t''), (''accept'', ''text/plain'')],
        auth = (''serena'', ''s3cret''), timeout = 60, stream = False \<rparr>"
  have "?req \<in> set (posted (fst (proxy ?env ?rq)))"
    by (simp add: example_posted example_not_streaming)
  moreover have "post ?env ?req = Inr ?up" by (simp add: example_env_def)
  moreover have "json_result ?up = Inr (JInt 0)" by (simp add: example_upstream_def)
  ultimately show ?thesis
    using proxy_falsy_body_empty_object [of "JInt 0" ?req ?env ?rq ?up]
    by (simp add: example_not_streaming)
qed





text \<open>
  C6. Every upstream call the handler makes carries the pair of the fixed user name
  \<open>serena\<close> and the configured password (\<open>SERENA_PASSWORD\<close> of the process
  environment, \<open>password123\<close> when it is unset). The pair does not depend on the request.
\<close>

theorem proxy_auth_fixed:
  "\<forall>req \<in> set (posted (fst (proxy env request))).
     auth req = (''serena'', environ_get (environ env) ''SERENA_PASSWORD'' ''password123'')"
proof
  fix req assume "req \<in> set (posted (fst (proxy env request)))"
  then have "req \<in> set (posted (fst (proxy_try env request)))" by (simp add: proxy_fst)
  from proxy_try_of_posted [OF this]
  show "auth req = (''serena'', environ_get (environ env) ''SERENA_PASSWORD'' ''password123'')"
    by simp
qed

theorem proxy_auth_fixed_witness:
  "map auth (posted (fst (proxy (example_env (Inr (example_upstream [] (Inr JNull))))
                           (example_request ''{}'' [])))) = [(''serena'', ''s3cret'')]
   \<and> environ_get [''SERENA_PASSWORD'' \<mapsto> ''s3cret''] ''SERENA_PASSWORD'' ''password123'' = ''s3cret''
   \<and> environ_get Map.empty ''SERENA_PASSWORD'' ''password123'' = ''password123''"
proof -
  let ?env = "example_env (Inr (example_upstream [] (Inr JNull)))"
  let ?rq = "example_request ''{}'' []"
  have e: "environ ?env = [''SERENA_PASSWORD'' \<mapsto> ''s3cret'']" by (simp add: example_env_def)
  have l: "length (posted (fst (proxy ?env ?rq))) = 1" by (simp add: example_posted)
  have "\<forall>a \<in> set (map auth (posted (fst (proxy ?env ?rq)))). a = (''serena'', ''s3cret'')"
    using proxy_auth_fixed [of ?env ?rq] by (simp add: e environ_get_def)
  with l have "map auth (posted (fst (proxy ?env ?rq))) = [(''serena'', ''s3cret'')]"
    by (cases "posted (fst (proxy ?env ?rq))") auto
  then show ?thesis by (simp add: environ_get_def)
qed

text \<open>
  C10. Two requests with the same endpoint, headers and body are routed alike under the
  same environment: the same upstream URL, sanitized headers, auth pair and streaming
  classification, and the same events and result of the handler. Nothing else of the
  request, and no state kept between calls, enters the routing.
\<close>

theorem proxy_routing_deterministic:
  "endpoint r1 = endpoint r2 \<and> header_items r1 = header_items r2 \<and> body_read r1 = body_read r2
   \<longrightarrow> route env r1 b = route env r2 b \<and> proxy env r1 = proxy env r2"
proof (intro impI, elim conjE)
  assume e: "endpoint r1 = endpoint r2" and h: "header_items r1 = header_items r2"
    and br: "body_read r1 = body_read r2"
  have r: "route env r1 b' = route env r2 b'" for b'
    using e h by (simp add: route_def)
  have "proxy_try env r1 = proxy_try env r2"
    unfolding proxy_try_def br r ..
  with r show "route env r1 b = route env r2 b \<and> proxy env r1 = proxy env r2"
    by (simp add: proxy_def)
qed

theorem proxy_routing_deterministic_witness:
  "example_request ''{}'' ''page=1'' \<noteq> example_request ''{}'' ''page=2''
   \<and> route (example_env (Inr (example_upstream [] (Inr JNull)))) (example_request ''{}'' ''page=1'') ''{}''
     = route (example_env (Inr (example_upstream [] (Inr JNull)))) (example_request ''{}'' ''page=2'') ''{}''
   \<and> proxy (example_env (Inr (example_upstream [] (Inr JNull)))) (example_request ''{}'' ''page=1'')
     = proxy (example_env (Inr (example_upstream [] (Inr JNull)))) (example_request ''{}'' ''page=2'')"
  using proxy_routing_deterministic
    [of "example_request ''{}'' ''page=1''" "example_request ''{}'' ''page=2''"
        "example_env (Inr (example_upstream [] (Inr JNull)))" "''{}''"]
  by (simp add: example_request_def)


end
